theory Spec2Isabelle
  imports Main
begin

section \<open>Data model\<close>

text \<open>
  The delivery client of the package lives in \<open>client.go\<close>. The structs \<open>Message\<close>,
  \<open>Response\<close> and \<open>Result\<close>, the error-kind constants and the method \<open>encode\<close> are
  declared in other files of the package; they are modelled below from the way
  \<open>client.go\<close> uses them and from the specification.
\<close>

text \<open>
  Modelled from the spec: the struct \<open>Result\<close>, whose declaration is not part of
  \<open>client.go\<close>. It has the fields that \<open>client.go\<close> and the specification name: the
  delivered-message identifier, the registration identifier and the error kind (a
  string, since \<open>send\<close> assigns a \<open>string\<close> variable to it).
\<close>

record Result =
  MessageID :: string
  RegistrationID :: string
  Error :: string

text \<open>
  Modelled from the spec: the struct \<open>Response\<close>, whose declaration is not part of
  \<open>client.go\<close>. The counters are Go integers; \<open>Failure\<close> receives a \<open>len\<close>, which
  never leaves the range of \<open>int\<close>, so unbounded integers lose nothing.
\<close>

record Response =
  MulticastID :: int
  Success :: int
  Failure :: int
  CanonicalIDs :: int
  Results :: "Result list"

text \<open>
  Modelled from the spec: the struct \<open>Message\<close>, whose declaration is not part of
  \<open>client.go\<close>. The only field \<open>client.go\<close> reads is \<open>RegistrationIDs\<close>; the payload
  and the delivery options are kept together as one field of an arbitrary type.
\<close>

record 'p Message =
  RegistrationIDs :: "string list"
  Payload :: 'p

text \<open>
  Modelled from the spec: the error kinds \<open>Timeout\<close>, \<open>AuthenticationError\<close>,
  \<open>InternalServerError\<close> and \<open>InvalidJSON\<close>, string constants whose declarations are
  not part of \<open>client.go\<close>. Nothing below depends on their values.
\<close>

definition Timeout :: string where
  "Timeout = ''Timeout''"

definition AuthenticationError :: string where
  "AuthenticationError = ''AuthenticationError''"

definition InternalServerError :: string where
  "InternalServerError = ''InternalServerError''"

definition InvalidJSON :: string where
  "InvalidJSON = ''InvalidJSON''"

text \<open>The package constant \<open>Gateway\<close> (the record field below has taken that name).\<close>

definition Gateway_endpoint :: string where
  "Gateway_endpoint = ''https://android.googleapis.com/gcm/send''"

definition MaxBackOffDelay :: int where
  "MaxBackOffDelay = 1024000"

definition BackOffInitialDelay :: int where
  "BackOffInitialDelay = 1000"

text \<open>
  \<open>Client\<close>: the API key, the gateway URL and a pointer to the HTTP client, which
  may be nil. The type \<open>'h\<close> is the type of HTTP client handles.
\<close>

record 'h Client =
  APIKey :: string
  Gateway :: string
  HTTPClient :: "'h option"

subsection \<open>The standard library, as far as \<open>client.go\<close> calls it\<close>

text \<open>
  An HTTP request as \<open>http.NewRequest\<close> builds it and \<open>Header.Add\<close> extends it, and
  an HTTP response as \<open>send\<close> reads it: the status code and what \<open>ioutil.ReadAll\<close>
  makes of the body (\<open>None\<close> when it returns an error).
\<close>

record Request =
  Method :: string
  URL :: string
  Header :: "(string \<times> string) list"
  Content :: string

record http_response =
  StatusCode :: int
  Body :: "string option"

text \<open>
  The library functions are parameters of the model. \<open>json_Marshal\<close>,
  \<open>http_NewRequest\<close> and \<open>json_Unmarshal\<close> return \<open>None\<close> where the Go function
  returns an error. \<open>client_Do\<close> is \<open>(*http.Client).Do\<close>: given the requests issued so
  far and the request at hand it yields a response object or none (the error it
  returns beside it is ignored by \<open>send\<close>).
\<close>

record ('p, 'h) stdlib =
  json_Marshal :: "'p Message \<Rightarrow> string option"
  http_NewRequest :: "string \<Rightarrow> string \<Rightarrow> string \<Rightarrow> Request option"
  http_DefaultClient :: 'h
  client_Do :: "'h \<Rightarrow> Request list \<Rightarrow> Request \<Rightarrow> http_response option"
  json_Unmarshal :: "string \<Rightarrow> Response option"

text \<open>The run-time panics that \<open>client.go\<close> can raise.\<close>

datatype panic = NilDereference | IndexOutOfRange nat nat

section \<open>The encoder\<close>

text \<open>
  Modelled from the spec: the method \<open>encode\<close> and the batch limit
  \<open>MaxRegistrationIDs\<close>, neither of which is part of \<open>client.go\<close>. The identifier
  list is cut into consecutive chunks of at most \<open>n\<close> identifiers, the last one
  possibly shorter, and no chunk at all for an empty list; every chunk becomes a wire
  message with the payload and options of the original. The limit is a parameter.
\<close>

function chunks :: "nat \<Rightarrow> 'a list \<Rightarrow> 'a list list" where
  "chunks n xs = (if n = 0 \<or> xs = [] then [] else take n xs # chunks n (drop n xs))"
  by pat_completeness auto
termination
  by (relation "measure (\<lambda>(n, xs). length xs)") auto

declare chunks.simps [simp del]

definition encode :: "nat \<Rightarrow> 'p Message \<Rightarrow> 'p Message list" where
  "encode maxIDs message =
     map (\<lambda>ids. message\<lparr>RegistrationIDs := ids\<rparr>) (chunks maxIDs (RegistrationIDs message))"

section \<open>The delivery client\<close>

definition CreateClient :: "('p, 'h) stdlib \<Rightarrow> string \<Rightarrow> string \<Rightarrow> 'h Client" where
  "CreateClient lib apiKey gateway =
     \<lparr>APIKey = apiKey, Gateway = gateway, HTTPClient = Some (http_DefaultClient lib)\<rparr>"

text \<open>
  \<open>make([]Result, n)\<close> holds \<open>n\<close> zero values; the composite literal
  \<open>Result{Error: e, RegistrationID: r}\<close> leaves the other field zero.
\<close>

definition zero_Result :: Result where
  "zero_Result = \<lparr>MessageID = [], RegistrationID = [], Error = []\<rparr>"

definition Result_lit :: "string \<Rightarrow> string \<Rightarrow> Result" where
  "Result_lit e r = \<lparr>MessageID = [], RegistrationID = r, Error = e\<rparr>"

text \<open>
  The three loops \<open>response.Results[idx] = Result{Error: e, RegistrationID: id}\<close> over
  the registration identifiers, from index \<open>idx\<close> on. An index assignment outside the
  slice panics.
\<close>

fun fill_results :: "string \<Rightarrow> nat \<Rightarrow> string list \<Rightarrow> Result list \<Rightarrow> panic + Result list" where
  "fill_results e idx [] rs = Inr rs"
| "fill_results e idx (registrationID # ids) rs =
     (if idx < length rs
      then fill_results e (Suc idx) ids (rs[idx := Result_lit e registrationID])
      else Inl (IndexOutOfRange idx (length rs)))"

text \<open>
  The loop \<open>response.Results[idx].RegistrationID = registrationID\<close> of the success
  path, from index \<open>idx\<close> on.
\<close>

fun stamp_results :: "nat \<Rightarrow> string list \<Rightarrow> Result list \<Rightarrow> panic + Result list" where
  "stamp_results idx [] rs = Inr rs"
| "stamp_results idx (registrationID # ids) rs =
     (if idx < length rs
      then stamp_results (Suc idx) ids (rs[idx := (rs ! idx)\<lparr>RegistrationID := registrationID\<rparr>])
      else Inl (IndexOutOfRange idx (length rs)))"

text \<open>
  The synthetic failure response, which \<open>send\<close> builds in three places with a
  different error kind each time.
\<close>

definition synthetic :: "string \<Rightarrow> 'p Message \<Rightarrow> panic + Response" where
  "synthetic e message =
     (let n = length (RegistrationIDs message) in
      case fill_results e 0 (RegistrationIDs message) (replicate n zero_Result) of
        Inl p \<Rightarrow> Inl p
      | Inr rs \<Rightarrow>
          Inr \<lparr>MulticastID = - 1, Success = 0, Failure = int n, CanonicalIDs = 0, Results = rs\<rparr>)"

text \<open>
  The first half of \<open>send\<close>: marshal the message (on an error the data is nil, an
  empty body), build the request, add the two headers and hand the request to the
  HTTP client. Both errors are ignored, so a request that could not be built is a nil
  pointer, and \<open>request.Header\<close> panics; so does \<open>Do\<close> on a nil HTTP client. The second
  component is the list of requests issued so far.
\<close>

definition exchange ::
  "('p, 'h) stdlib \<Rightarrow> 'h Client \<Rightarrow> 'p Message \<Rightarrow> Request list
     \<Rightarrow> (panic + http_response option) \<times> Request list" where
  "exchange lib m message issued =
     (let data = (case json_Marshal lib message of None \<Rightarrow> [] | Some d \<Rightarrow> d) in
      case http_NewRequest lib ''POST'' (Gateway m) data of
        None \<Rightarrow> (Inl NilDereference, issued)
      | Some request0 \<Rightarrow>
          let request1 = request0\<lparr>Header := Header request0 @ [(''Authorization'', ''key='' @ APIKey m)]\<rparr>;
              request = request1\<lparr>Header := Header request1 @ [(''Content-Type'', ''application/json'')]\<rparr>
          in case HTTPClient m of
               None \<Rightarrow> (Inl NilDereference, issued)
             | Some h \<Rightarrow> (Inr (client_Do lib h issued request), issued @ [request]))"

text \<open>The second half of \<open>send\<close>: the classification of the outcome.\<close>

definition classify ::
  "('p, 'h) stdlib \<Rightarrow> 'p Message \<Rightarrow> http_response option \<Rightarrow> panic + Response" where
  "classify lib message httpResponse =
     (case httpResponse of
        None \<Rightarrow> synthetic Timeout message
      | Some resp \<Rightarrow>
          if StatusCode resp \<noteq> 200
          then synthetic (if StatusCode resp = 401 then AuthenticationError
                          else InternalServerError) message
          else
            (case Body resp of
               None \<Rightarrow> synthetic InvalidJSON message
             | Some body \<Rightarrow>
                 (case json_Unmarshal lib body of
                    None \<Rightarrow> synthetic InvalidJSON message
                  | Some response \<Rightarrow>
                      (case stamp_results 0 (RegistrationIDs message) (Results response) of
                         Inl p \<Rightarrow> Inl p
                       | Inr rs \<Rightarrow> Inr (response\<lparr>Results := rs\<rparr>)))))"

definition send ::
  "('p, 'h) stdlib \<Rightarrow> 'h Client \<Rightarrow> 'p Message \<Rightarrow> Request list
     \<Rightarrow> (panic + Response) \<times> Request list" where
  "send lib m message issued =
     (case exchange lib m message issued of
        (Inl p, issued') \<Rightarrow> (Inl p, issued')
      | (Inr httpResponse, issued') \<Rightarrow> (classify lib message httpResponse, issued'))"

text \<open>
  The loop of \<open>SendMessage\<close> over the wire messages: a panic of \<open>send\<close> ends it, any
  response is stored and the loop goes on.
\<close>

fun send_each ::
  "('p, 'h) stdlib \<Rightarrow> 'h Client \<Rightarrow> 'p Message list \<Rightarrow> Request list
     \<Rightarrow> (panic + Response list) \<times> Request list" where
  "send_each lib m [] issued = (Inr [], issued)"
| "send_each lib m (message # messages) issued =
     (case send lib m message issued of
        (Inl p, issued') \<Rightarrow> (Inl p, issued')
      | (Inr response, issued') \<Rightarrow>
          (case send_each lib m messages issued' of
             (Inl p, issued'') \<Rightarrow> (Inl p, issued'')
           | (Inr responses, issued'') \<Rightarrow> (Inr (response # responses), issued'')))"

text \<open>
  \<open>SendMessage\<close>: a nil message gives the nil slice at once; any other message is
  encoded and its wire messages are sent in order.
\<close>

definition SendMessage ::
  "nat \<Rightarrow> ('p, 'h) stdlib \<Rightarrow> 'h Client \<Rightarrow> 'p Message option \<Rightarrow> Request list
     \<Rightarrow> (panic + Response list) \<times> Request list" where
  "SendMessage maxIDs lib m message issued =
     (case message of
        None \<Rightarrow> (Inr [], issued)
      | Some msg \<Rightarrow> send_each lib m (encode maxIDs msg) issued)"

subsection \<open>A concrete library and client\<close>

text \<open>
  A library whose JSON encoder and request constructor always succeed, whose HTTP
  client answers every request with the same outcome \<open>answer\<close>, and whose JSON decoder
  is \<open>parse\<close>; and the client that \<open>CreateClient\<close> builds on it for the production
  endpoint. They serve as concrete inputs.
\<close>

definition fixed_lib ::
  "http_response option \<Rightarrow> (string \<Rightarrow> Response option) \<Rightarrow> (unit, unit) stdlib" where
  "fixed_lib answer parse =
     \<lparr>json_Marshal = (\<lambda>message. Some ''{}''),
      http_NewRequest = (\<lambda>method url data.
         Some \<lparr>Method = method, URL = url, Header = [], Content = data\<rparr>),
      http_DefaultClient = (),
      client_Do = (\<lambda>h issued request. answer),
      json_Unmarshal = parse\<rparr>"

definition fixed_client :: "unit Client" where
  "fixed_client = \<lparr>APIKey = ''key'', Gateway = Gateway_endpoint, HTTPClient = Some ()\<rparr>"

definition fixed_request :: Request where
  "fixed_request =
     \<lparr>Method = ''POST'', URL = Gateway_endpoint,
      Header = [(''Authorization'', ''key=key''), (''Content-Type'', ''application/json'')],
      Content = ''{}''\<rparr>"

section \<open>The loops over the registration identifiers\<close>

lemma fill_results_run:
  "idx + length ids \<le> length rs \<Longrightarrow>
   fill_results e idx ids rs = Inr (take idx rs @ map (Result_lit e) ids @ drop (idx + length ids) rs)"
proof (induction ids arbitrary: idx rs)
  case Nil
  then show ?case by simp
next
  case (Cons r ids)
  then have lt: "idx < length rs" by simp
  have "fill_results e (Suc idx) ids (rs[idx := Result_lit e r]) =
        Inr (take (Suc idx) (rs[idx := Result_lit e r]) @ map (Result_lit e) ids
             @ drop (Suc idx + length ids) (rs[idx := Result_lit e r]))"
    using Cons.prems by (intro Cons.IH) simp
  moreover have "take (Suc idx) (rs[idx := Result_lit e r]) = take idx rs @ [Result_lit e r]"
    using lt by (simp add: take_Suc_conv_app_nth)
  ultimately show ?case using lt by simp
qed

lemma stamp_results_run:
  "idx + length ids \<le> length rs \<Longrightarrow>
   stamp_results idx ids rs =
     Inr (take idx rs @ map2 (\<lambda>r i. r\<lparr>RegistrationID := i\<rparr>) (drop idx rs) ids
          @ drop (idx + length ids) rs)"
proof (induction ids arbitrary: idx rs)
  case Nil
  then show ?case by simp
next
  case (Cons r ids)
  then have lt: "idx < length rs" by simp
  let ?v = "(rs ! idx)\<lparr>RegistrationID := r\<rparr>"
  have "stamp_results (Suc idx) ids (rs[idx := ?v]) =
        Inr (take (Suc idx) (rs[idx := ?v]) @ map2 (\<lambda>r i. r\<lparr>RegistrationID := i\<rparr>) (drop (Suc idx) (rs[idx := ?v])) ids
             @ drop (Suc idx + length ids) (rs[idx := ?v]))"
    using Cons.prems by (intro Cons.IH) simp
  moreover have "take (Suc idx) (rs[idx := ?v]) = take idx rs @ [?v]"
    using lt by (simp add: take_Suc_conv_app_nth)
  moreover have "drop idx rs = rs ! idx # drop (Suc idx) rs"
    using lt by (simp add: Cons_nth_drop_Suc)
  ultimately show ?case using lt by simp
qed

lemma stamp_results_panic:
  "idx \<le> length rs \<Longrightarrow> length rs < idx + length ids \<Longrightarrow>
   stamp_results idx ids rs = Inl (IndexOutOfRange (length rs) (length rs))"
proof (induction ids arbitrary: idx rs)
  case Nil
  then show ?case by simp
next
  case (Cons r ids)
  show ?case
  proof (cases "idx < length rs")
    case True
    then show ?thesis using Cons.prems Cons.IH [of "Suc idx" "rs[idx := (rs ! idx)\<lparr>RegistrationID := r\<rparr>]"]
      by simp
  next
    case False
    then show ?thesis using Cons.prems by simp
  qed
qed

lemma length_chunks:
  "0 < n \<Longrightarrow> length (chunks n xs) = (length xs + n - 1) div n"
proof (induction n xs rule: chunks.induct)
  case (1 n xs)
  show ?case
  proof (cases "xs = []")
    case True
    then show ?thesis using "1.prems" by (simp add: chunks.simps)
  next
    case False
    then have IH: "length (chunks n (drop n xs)) = (length (drop n xs) + n - 1) div n"
      using 1 by simp
    have pos: "Suc 0 \<le> length xs" using False by (cases xs) simp_all
    have "Suc ((length xs - n + n - 1) div n) = (length xs + n - 1) div n"
    proof (cases "n \<le> length xs")
      case True
      have e: "length xs + n - 1 = (length xs - 1) + n" using pos by arith
      have "(length xs - 1 + n) div n = Suc ((length xs - 1) div n)"
        using "1.prems" div_add_self2 [of n "length xs - 1"] by simp
      then have "(length xs + n - 1) div n = Suc ((length xs - 1) div n)"
        by (simp only: e)
      moreover have "length xs - n + n - 1 = length xs - 1" using True by arith
      ultimately show ?thesis by (simp only:)
    next
      case False
      then have "(length xs + n - 1) div n = 1" using pos "1.prems"
        by (intro div_nat_eqI) simp_all
      then show ?thesis using False by simp
    qed
    then show ?thesis using False "1.prems" IH by (subst chunks.simps) simp
  qed
qed

lemma concat_chunks: "0 < n \<Longrightarrow> concat (chunks n xs) = xs"
proof (induction n xs rule: chunks.induct)
  case (1 n xs)
  show ?case
  proof (cases "xs = []")
    case True
    then show ?thesis by (simp add: chunks.simps)
  next
    case False
    then show ?thesis using 1 by (subst chunks.simps) simp
  qed
qed

lemma chunks_bound: "c \<in> set (chunks n xs) \<Longrightarrow> length c \<le> n"
proof (induction n xs rule: chunks.induct)
  case (1 n xs)
  show ?case
  proof (cases "n = 0 \<or> xs = []")
    case True
    then show ?thesis using "1.prems" by (simp add: chunks.simps)
  next
    case False
    then have "c = take n xs \<or> c \<in> set (chunks n (drop n xs))"
      using "1.prems" by (subst (asm) chunks.simps) simp
    then show ?thesis using False "1.IH" by auto
  qed
qed

section \<open>Building blocks of \<open>send\<close>\<close>

lemma synthetic_eq:
  "synthetic e message =
     Inr \<lparr>MulticastID = - 1, Success = 0, Failure = int (length (RegistrationIDs message)),
          CanonicalIDs = 0, Results = map (Result_lit e) (RegistrationIDs message)\<rparr>"
  using fill_results_run [of 0 "RegistrationIDs message"
      "replicate (length (RegistrationIDs message)) zero_Result" e]
  by (simp add: synthetic_def)

lemma send_classify:
  "exchange lib m message issued = (Inr httpResponse, issued') \<Longrightarrow>
   send lib m message issued = (classify lib message httpResponse, issued')"
  by (simp add: send_def)

lemma classify_valid_json:
  assumes "StatusCode resp = 200" and "Body resp = Some body"
    and "json_Unmarshal lib body = Some response"
  shows "classify lib message (Some resp) =
     (case stamp_results 0 (RegistrationIDs message) (Results response) of
        Inl p \<Rightarrow> Inl p
      | Inr rs \<Rightarrow> Inr (response\<lparr>Results := rs\<rparr>))"
  using assms by (simp add: classify_def)

lemma fixed_exchange:
  "exchange (fixed_lib answer parse) fixed_client message [] = (Inr answer, [fixed_request])"
  by (simp add: exchange_def fixed_lib_def fixed_client_def fixed_request_def)

lemma fixed_Unmarshal: "json_Unmarshal (fixed_lib answer parse) = parse"
  by (simp add: fixed_lib_def)

section \<open>The failure paths of \<open>send\<close>\<close>

text \<open>
  Claim C3. For every wire message, when the HTTP client yields no response object,
  \<open>send\<close> returns a response with \<open>MulticastID = -1\<close>, \<open>Success = 0\<close>,
  \<open>Failure = len(RegistrationIDs)\<close>, \<open>CanonicalIDs = 0\<close> and, index by index, one result
  per registration identifier that carries the error kind \<open>Timeout\<close> and that
  identifier.
\<close>

theorem send_transport_failure:
  assumes "exchange lib m message issued = (Inr None, issued')"
  shows "send lib m message issued =
    (Inr \<lparr>MulticastID = - 1, Success = 0, Failure = int (length (RegistrationIDs message)),
          CanonicalIDs = 0,
          Results = map (\<lambda>registrationID.
            \<lparr>MessageID = [], RegistrationID = registrationID, Error = Timeout\<rparr>)
            (RegistrationIDs message)\<rparr>, issued')"
  using assms by (simp add: send_def classify_def synthetic_eq Result_lit_def)

theorem send_transport_failure_witness:
  "exchange (fixed_lib None (\<lambda>body. None)) fixed_client
     \<lparr>RegistrationIDs = [''A'', ''B''], Payload = ()\<rparr> [] = (Inr None, [fixed_request]) \<and>
   send (fixed_lib None (\<lambda>body. None)) fixed_client
     \<lparr>RegistrationIDs = [''A'', ''B''], Payload = ()\<rparr> [] =
    (Inr \<lparr>MulticastID = - 1, Success = 0, Failure = 2, CanonicalIDs = 0,
          Results = [\<lparr>MessageID = [], RegistrationID = ''A'', Error = Timeout\<rparr>,
                     \<lparr>MessageID = [], RegistrationID = ''B'', Error = Timeout\<rparr>]\<rparr>,
     [fixed_request])"
  using send_transport_failure [of "fixed_lib None (\<lambda>body. None)" fixed_client
      "\<lparr>RegistrationIDs = [''A'', ''B''], Payload = ()\<rparr>" "[]" "[fixed_request]"]
  by (simp add: fixed_exchange)

text \<open>
  Claim C4. For every wire message and every HTTP response whose status is not 200,
  \<open>send\<close> returns the synthetic failure response (\<open>MulticastID = -1\<close>, \<open>Success = 0\<close>,
  \<open>Failure = len(RegistrationIDs)\<close>, \<open>CanonicalIDs = 0\<close>) in which every result carries
  its registration identifier and the error kind \<open>AuthenticationError\<close> when the status
  is 401, \<open>InternalServerError\<close> for any other status.
\<close>

theorem send_non_200:
  assumes "exchange lib m message issued = (Inr (Some resp), issued')"
    and "StatusCode resp \<noteq> 200"
  shows "send lib m message issued =
    (Inr \<lparr>MulticastID = - 1, Success = 0, Failure = int (length (RegistrationIDs message)),
          CanonicalIDs = 0,
          Results = map (\<lambda>registrationID.
            \<lparr>MessageID = [], RegistrationID = registrationID,
             Error = (if StatusCode resp = 401 then AuthenticationError
                      else InternalServerError)\<rparr>)
            (RegistrationIDs message)\<rparr>, issued')"
  using assms by (simp add: send_def classify_def synthetic_eq Result_lit_def)

theorem send_non_200_witness:
  "exchange (fixed_lib (Some \<lparr>StatusCode = 401, Body = Some []\<rparr>) (\<lambda>body. None)) fixed_client
     \<lparr>RegistrationIDs = [''A'', ''B''], Payload = ()\<rparr> [] =
     (Inr (Some \<lparr>StatusCode = 401, Body = Some []\<rparr>), [fixed_request]) \<and>
   StatusCode \<lparr>StatusCode = 401, Body = Some []\<rparr> \<noteq> 200 \<and>
   send (fixed_lib (Some \<lparr>StatusCode = 401, Body = Some []\<rparr>) (\<lambda>body. None)) fixed_client
     \<lparr>RegistrationIDs = [''A'', ''B''], Payload = ()\<rparr> [] =
    (Inr \<lparr>MulticastID = - 1, Success = 0, Failure = 2, CanonicalIDs = 0,
          Results = [\<lparr>MessageID = [], RegistrationID = ''A'', Error = AuthenticationError\<rparr>,
                     \<lparr>MessageID = [], RegistrationID = ''B'', Error = AuthenticationError\<rparr>]\<rparr>,
     [fixed_request])"
  using send_non_200 [of "fixed_lib (Some \<lparr>StatusCode = 401, Body = Some []\<rparr>) (\<lambda>body. None)"
      fixed_client "\<lparr>RegistrationIDs = [''A'', ''B''], Payload = ()\<rparr>" "[]"
      "\<lparr>StatusCode = 401, Body = Some []\<rparr>" "[fixed_request]"]
  by (simp add: fixed_exchange)

text \<open>
  Claim C5. For every wire message and every exchange with status 200 whose body
  cannot be read, or is read and rejected by the JSON decoder, \<open>send\<close> returns a
  response with \<open>MulticastID = -1\<close> in which every result carries the error kind
  \<open>InvalidJSON\<close> and its registration identifier.
\<close>

theorem send_invalid_json:
  assumes "exchange lib m message issued = (Inr (Some resp), issued')"
    and "StatusCode resp = 200"
    and "Body resp = None \<or> (\<exists>body. Body resp = Some body \<and> json_Unmarshal lib body = None)"
  shows "send lib m message issued =
    (Inr \<lparr>MulticastID = - 1, Success = 0, Failure = int (length (RegistrationIDs message)),
          CanonicalIDs = 0,
          Results = map (\<lambda>registrationID.
            \<lparr>MessageID = [], RegistrationID = registrationID, Error = InvalidJSON\<rparr>)
            (RegistrationIDs message)\<rparr>, issued')"
  using assms by (auto simp add: send_def classify_def synthetic_eq Result_lit_def)

theorem send_invalid_json_witness:
  "exchange (fixed_lib (Some \<lparr>StatusCode = 200, Body = Some ''<html>''\<rparr>) (\<lambda>body. None)) fixed_client
     \<lparr>RegistrationIDs = [''A'', ''B''], Payload = ()\<rparr> [] =
     (Inr (Some \<lparr>StatusCode = 200, Body = Some ''<html>''\<rparr>), [fixed_request]) \<and>
   StatusCode \<lparr>StatusCode = 200, Body = Some ''<html>''\<rparr> = 200 \<and>
   (\<exists>body. Body \<lparr>StatusCode = 200, Body = Some ''<html>''\<rparr> = Some body \<and>
      json_Unmarshal (fixed_lib (Some \<lparr>StatusCode = 200, Body = Some ''<html>''\<rparr>) (\<lambda>body. None)
        :: (unit, unit) stdlib) body = None) \<and>
   send (fixed_lib (Some \<lparr>StatusCode = 200, Body = Some ''<html>''\<rparr>) (\<lambda>body. None)) fixed_client
     \<lparr>RegistrationIDs = [''A'', ''B''], Payload = ()\<rparr> [] =
    (Inr \<lparr>MulticastID = - 1, Success = 0, Failure = 2, CanonicalIDs = 0,
          Results = [\<lparr>MessageID = [], RegistrationID = ''A'', Error = InvalidJSON\<rparr>,
                     \<lparr>MessageID = [], RegistrationID = ''B'', Error = InvalidJSON\<rparr>]\<rparr>,
     [fixed_request])"
  using send_invalid_json [of "fixed_lib (Some \<lparr>StatusCode = 200, Body = Some ''<html>''\<rparr>) (\<lambda>body. None)"
      fixed_client "\<lparr>RegistrationIDs = [''A'', ''B''], Payload = ()\<rparr>" "[]"
      "\<lparr>StatusCode = 200, Body = Some ''<html>''\<rparr>" "[fixed_request]"]
  by (simp add: fixed_exchange fixed_Unmarshal)

section \<open>\<open>SendMessage\<close> and the encoder\<close>

text \<open>
  Claim C6. For a nil message \<open>SendMessage\<close> returns the empty (nil) slice of
  responses: it does not panic, and the list of issued requests is the one it
  started with, so no batch is attempted and no HTTP call is made.
\<close>

theorem SendMessage_nil:
  "SendMessage maxIDs lib m None issued = (Inr [], issued)"
  by (simp add: SendMessage_def)

text \<open>
  Claim C8. For every message with \<open>k\<close> registration identifiers and a batch limit
  \<open>L > 0\<close>, \<open>encode\<close> produces \<open>ceil(k/L)\<close> wire messages, each with at most \<open>L\<close>
  identifiers and with the payload and options of the message, and their identifier
  lists concatenate, in order, to the identifier list of the message.
\<close>

theorem encode_batches:
  assumes "0 < maxIDs"
  shows "length (encode maxIDs message) =
           (length (RegistrationIDs message) + maxIDs - 1) div maxIDs \<and>
         (\<forall>w \<in> set (encode maxIDs message).
            length (RegistrationIDs w) \<le> maxIDs \<and> Payload w = Payload message) \<and>
         concat (map RegistrationIDs (encode maxIDs message)) = RegistrationIDs message"
proof -
  have "length (encode maxIDs message) =
           (length (RegistrationIDs message) + maxIDs - 1) div maxIDs"
    using assms by (simp add: encode_def length_chunks)
  moreover have "\<forall>w \<in> set (encode maxIDs message).
            length (RegistrationIDs w) \<le> maxIDs \<and> Payload w = Payload message"
    by (auto simp add: encode_def chunks_bound)
  moreover have "map RegistrationIDs (encode maxIDs message) =
      chunks maxIDs (RegistrationIDs message)"
    by (simp add: encode_def comp_def)
  then have "concat (map RegistrationIDs (encode maxIDs message)) = RegistrationIDs message"
    using assms by (simp add: concat_chunks)
  ultimately show ?thesis by blast
qed

lemma chunks_2_5: "chunks 2 [a, b, c, d, e] = [[a, b], [c, d], [e]]"
  by (simp add: chunks.simps)

theorem encode_batches_witness:
  "(0::nat) < 2 \<and>
   encode 2 \<lparr>RegistrationIDs = [''A'', ''B'', ''C'', ''D'', ''E''], Payload = True\<rparr> =
     [\<lparr>RegistrationIDs = [''A'', ''B''], Payload = True\<rparr>,
      \<lparr>RegistrationIDs = [''C'', ''D''], Payload = True\<rparr>,
      \<lparr>RegistrationIDs = [''E''], Payload = True\<rparr>] \<and>
   length (encode 2 \<lparr>RegistrationIDs = [''A'', ''B'', ''C'', ''D'', ''E''], Payload = True\<rparr>) = 3 \<and>
   map (\<lambda>w. (length (RegistrationIDs w), Payload w))
     (encode 2 \<lparr>RegistrationIDs = [''A'', ''B'', ''C'', ''D'', ''E''], Payload = True\<rparr>) =
     [(2, True), (2, True), (1, True)] \<and>
   concat (map RegistrationIDs
     (encode 2 \<lparr>RegistrationIDs = [''A'', ''B'', ''C'', ''D'', ''E''], Payload = True\<rparr>)) =
     [''A'', ''B'', ''C'', ''D'', ''E'']"
  using encode_batches [of 2 "\<lparr>RegistrationIDs = [''A'', ''B'', ''C'', ''D'', ''E''], Payload = True\<rparr>"]
  by (simp add: encode_def chunks_2_5)

section \<open>The success path of \<open>send\<close>\<close>

text \<open>
  With status 200 and a body that the decoder accepts, \<open>send\<close> stamps the decoded
  results: with at least as many results as registration identifiers it returns the
  decoded response, the first results stamped and the others as decoded; with fewer
  it panics at the first index without a result.
\<close>

lemma send_valid_json_in_bounds:
  assumes "exchange lib m message issued = (Inr (Some resp), issued')"
    and "StatusCode resp = 200" and "Body resp = Some body"
    and "json_Unmarshal lib body = Some response"
    and "length (RegistrationIDs message) \<le> length (Results response)"
  shows "send lib m message issued =
    (Inr (response\<lparr>Results :=
        map2 (\<lambda>r registrationID. r\<lparr>RegistrationID := registrationID\<rparr>)
          (Results response) (RegistrationIDs message)
        @ drop (length (RegistrationIDs message)) (Results response)\<rparr>), issued')"
proof -
  have "stamp_results 0 (RegistrationIDs message) (Results response) =
      Inr (map2 (\<lambda>r registrationID. r\<lparr>RegistrationID := registrationID\<rparr>)
          (Results response) (RegistrationIDs message)
        @ drop (length (RegistrationIDs message)) (Results response))"
    using stamp_results_run [of 0 "RegistrationIDs message" "Results response"] assms(5)
    by simp
  then show ?thesis
    using assms(1-4) by (simp add: send_classify classify_valid_json)
qed

lemma send_valid_json_out_of_bounds:
  assumes "exchange lib m message issued = (Inr (Some resp), issued')"
    and "StatusCode resp = 200" and "Body resp = Some body"
    and "json_Unmarshal lib body = Some response"
    and "length (Results response) < length (RegistrationIDs message)"
  shows "send lib m message issued =
    (Inl (IndexOutOfRange (length (Results response)) (length (Results response))), issued')"
proof -
  have "stamp_results 0 (RegistrationIDs message) (Results response) =
      Inl (IndexOutOfRange (length (Results response)) (length (Results response)))"
    using stamp_results_panic [of 0 "Results response" "RegistrationIDs message"] assms(5)
    by simp
  then show ?thesis
    using assms(1-4) by (simp add: send_classify classify_valid_json)
qed

text \<open>Whenever \<open>send\<close> returns, no registration identifier is without a result.\<close>

lemma classify_length:
  assumes "classify lib message httpResponse = Inr r"
  shows "length (RegistrationIDs message) \<le> length (Results r)"
proof (cases "\<exists>resp body response. httpResponse = Some resp \<and> StatusCode resp = 200 \<and>
    Body resp = Some body \<and> json_Unmarshal lib body = Some response")
  case True
  then obtain resp body response where v: "httpResponse = Some resp" "StatusCode resp = 200"
    "Body resp = Some body" "json_Unmarshal lib body = Some response" by blast
  show ?thesis
  proof (cases "length (RegistrationIDs message) \<le> length (Results response)")
    case True
    have "stamp_results 0 (RegistrationIDs message) (Results response) =
      Inr (map2 (\<lambda>r registrationID. r\<lparr>RegistrationID := registrationID\<rparr>)
          (Results response) (RegistrationIDs message)
        @ drop (length (RegistrationIDs message)) (Results response))"
      using stamp_results_run [of 0 "RegistrationIDs message" "Results response"] True
      by simp
    then have "r = response\<lparr>Results :=
        map2 (\<lambda>r registrationID. r\<lparr>RegistrationID := registrationID\<rparr>)
          (Results response) (RegistrationIDs message)
        @ drop (length (RegistrationIDs message)) (Results response)\<rparr>"
      using assms v by (simp add: classify_valid_json)
    then show ?thesis using True by simp
  next
    case False
    then have "stamp_results 0 (RegistrationIDs message) (Results response) =
      Inl (IndexOutOfRange (length (Results response)) (length (Results response)))"
      using stamp_results_panic [of 0 "Results response" "RegistrationIDs message"] by simp
    then show ?thesis using assms v by (simp add: classify_valid_json)
  qed
next
  case False
  then have "\<exists>e. classify lib message httpResponse = synthetic e message"
    by (auto simp add: classify_def split: option.splits)
  then show ?thesis using assms by (auto simp add: synthetic_eq)
qed

text \<open>
  Claim C10. On the path with status 200 and a body that the JSON decoder accepts,
  the loop that stamps the registration identifiers indexes the decoded results at
  every index of the identifier list, with no bounds check. When the decoded results
  are at least as many as the registration identifiers, every index is in bounds and
  \<open>send\<close> returns a response; and only then: with fewer results the loop reaches the
  first missing index and panics there.
\<close>

theorem send_stamping_in_bounds_iff:
  assumes "exchange lib m message issued = (Inr (Some resp), issued')"
    and "StatusCode resp = 200" and "Body resp = Some body"
    and "json_Unmarshal lib body = Some response"
  shows "((\<exists>r. send lib m message issued = (Inr r, issued')) \<longleftrightarrow>
            length (RegistrationIDs message) \<le> length (Results response)) \<and>
         (send lib m message issued =
            (Inl (IndexOutOfRange (length (Results response)) (length (Results response))),
             issued') \<longleftrightarrow>
            length (Results response) < length (RegistrationIDs message))"
proof (cases "length (RegistrationIDs message) \<le> length (Results response)")
  case True
  then show ?thesis using send_valid_json_in_bounds [OF assms True] by simp
next
  case False
  then have "length (Results response) < length (RegistrationIDs message)" by simp
  then show ?thesis using send_valid_json_out_of_bounds [OF assms] by simp
qed

theorem send_stamping_in_bounds_iff_witness:
  "exchange (fixed_lib (Some \<lparr>StatusCode = 200, Body = Some ''{}''\<rparr>)
       (\<lambda>body. Some \<lparr>MulticastID = 123, Success = 1, Failure = 0, CanonicalIDs = 0,
          Results = [\<lparr>MessageID = ''m1'', RegistrationID = [], Error = []\<rparr>]\<rparr>))
     fixed_client \<lparr>RegistrationIDs = [''R1''], Payload = ()\<rparr> [] =
     (Inr (Some \<lparr>StatusCode = 200, Body = Some ''{}''\<rparr>), [fixed_request]) \<and>
   (\<exists>r. send (fixed_lib (Some \<lparr>StatusCode = 200, Body = Some ''{}''\<rparr>)
       (\<lambda>body. Some \<lparr>MulticastID = 123, Success = 1, Failure = 0, CanonicalIDs = 0,
          Results = [\<lparr>MessageID = ''m1'', RegistrationID = [], Error = []\<rparr>]\<rparr>))
     fixed_client \<lparr>RegistrationIDs = [''R1''], Payload = ()\<rparr> [] = (Inr r, [fixed_request]))"
  using send_stamping_in_bounds_iff [of
      "fixed_lib (Some \<lparr>StatusCode = 200, Body = Some ''{}''\<rparr>)
       (\<lambda>body. Some \<lparr>MulticastID = 123, Success = 1, Failure = 0, CanonicalIDs = 0,
          Results = [\<lparr>MessageID = ''m1'', RegistrationID = [], Error = []\<rparr>]\<rparr>)"
      fixed_client "\<lparr>RegistrationIDs = [''R1''], Payload = ()\<rparr>" "[]"
      "\<lparr>StatusCode = 200, Body = Some ''{}''\<rparr>" "[fixed_request]" "''{}''"
      "\<lparr>MulticastID = 123, Success = 1, Failure = 0, CanonicalIDs = 0,
          Results = [\<lparr>MessageID = ''m1'', RegistrationID = [], Error = []\<rparr>]\<rparr>"]
  by (simp add: fixed_exchange fixed_Unmarshal)

text \<open>
  Claim C1. The claim is that on every outcome of \<open>send\<close>, the one with status 200
  and valid JSON included, the returned response has exactly as many results as the
  wire message has registration identifiers. On that outcome the results are the
  ones the gateway sent, however many: for one registration identifier and a body
  with two results, \<open>send\<close> returns both, the second one unstamped.
\<close>

theorem send_more_results_than_ids:
  "send (fixed_lib (Some \<lparr>StatusCode = 200, Body = Some ''{}''\<rparr>)
       (\<lambda>body. Some \<lparr>MulticastID = 123, Success = 2, Failure = 0, CanonicalIDs = 0,
          Results = [\<lparr>MessageID = ''m1'', RegistrationID = [], Error = []\<rparr>,
                     \<lparr>MessageID = ''m2'', RegistrationID = [], Error = []\<rparr>]\<rparr>))
     fixed_client \<lparr>RegistrationIDs = [''R1''], Payload = ()\<rparr> [] =
   (Inr \<lparr>MulticastID = 123, Success = 2, Failure = 0, CanonicalIDs = 0,
          Results = [\<lparr>MessageID = ''m1'', RegistrationID = ''R1'', Error = []\<rparr>,
                     \<lparr>MessageID = ''m2'', RegistrationID = [], Error = []\<rparr>]\<rparr>,
    [fixed_request])"
  by (simp add: send_def fixed_exchange classify_def fixed_Unmarshal)

text \<open>
  Claim C2. The claim is that for every response with status 200 and valid JSON,
  \<open>send\<close> returns the decoded response with \<open>Results[i].RegistrationID\<close> set to
  \<open>RegistrationIDs[i]\<close> at every index. For one registration identifier and a body
  without results (such as the JSON object without members), \<open>send\<close> returns
  nothing: the assignment at index 0 is out of range and panics.
\<close>

theorem send_fewer_results_than_ids:
  "send (fixed_lib (Some \<lparr>StatusCode = 200, Body = Some ''{}''\<rparr>)
       (\<lambda>body. Some \<lparr>MulticastID = 0, Success = 0, Failure = 0, CanonicalIDs = 0,
          Results = []\<rparr>))
     fixed_client \<lparr>RegistrationIDs = [''R1''], Payload = ()\<rparr> [] =
   (Inl (IndexOutOfRange 0 0), [fixed_request])"
  by (simp add: send_def fixed_exchange classify_def fixed_Unmarshal)

section \<open>The loop of \<open>SendMessage\<close>\<close>

text \<open>
  The loop stores one response per wire message and never stops by itself: when every
  \<open>send\<close> returns, so does the loop, with as many responses as wire messages.
\<close>

lemma send_each_length:
  "send_each lib m messages issued = (Inr responses, issued') \<Longrightarrow>
   length responses = length messages"
proof (induction messages arbitrary: issued responses)
  case Nil
  then show ?case by simp
next
  case (Cons message messages)
  then show ?case
    by (auto split: prod.splits sum.splits)
qed

lemma send_each_total:
  assumes "\<And>message issued. message \<in> set messages \<Longrightarrow>
      \<exists>response. fst (send lib m message issued) = Inr response"
  shows "\<exists>responses issued'. send_each lib m messages issued = (Inr responses, issued')"
  using assms
proof (induction messages arbitrary: issued)
  case Nil
  then show ?case by simp
next
  case (Cons message messages)
  obtain response issued1 where s: "send lib m message issued = (Inr response, issued1)"
    using Cons.prems [of message issued] by (cases "send lib m message issued") auto
  obtain responses issued2 where "send_each lib m messages issued1 = (Inr responses, issued2)"
    using Cons.IH [of issued1] Cons.prems by auto
  then show ?case using s by simp
qed

lemma chunks_1_2: "chunks (Suc 0) [a, b] = [[a], [b]]"
  by (simp add: chunks.simps)

text \<open>
  Claim C7. The claim is that for every message \<open>SendMessage\<close> returns one response
  per wire message, in the order of the encoder, and that a failure for one wire
  message never keeps the next ones from being attempted. With a batch limit of 1,
  two registration identifiers and a gateway that answers 200 with a body without
  results, the encoder yields two wire messages, \<open>send\<close> panics on the first,
  \<open>SendMessage\<close> returns no response at all, and a single request has been issued.
\<close>

theorem SendMessage_panics_in_first_batch:
  "encode 1 \<lparr>RegistrationIDs = [''A'', ''B''], Payload = ()\<rparr> =
     [\<lparr>RegistrationIDs = [''A''], Payload = ()\<rparr>, \<lparr>RegistrationIDs = [''B''], Payload = ()\<rparr>] \<and>
   SendMessage 1 (fixed_lib (Some \<lparr>StatusCode = 200, Body = Some ''{}''\<rparr>)
       (\<lambda>body. Some \<lparr>MulticastID = 0, Success = 0, Failure = 0, CanonicalIDs = 0,
          Results = []\<rparr>))
     fixed_client (Some \<lparr>RegistrationIDs = [''A'', ''B''], Payload = ()\<rparr>) [] =
   (Inl (IndexOutOfRange 0 0), [fixed_request])"
  by (simp add: SendMessage_def encode_def chunks_1_2 send_def fixed_exchange classify_def
      fixed_Unmarshal)

section \<open>Client construction\<close>

text \<open>
  \<open>CreateClient\<close> never replaces the gateway it is given: with the empty string the
  client has the empty gateway, not the production endpoint.
\<close>

theorem CreateClient_empty_gateway:
  "Gateway (CreateClient (fixed_lib None (\<lambda>body. None)) ''key'' []) = [] \<and>
   Gateway (CreateClient (fixed_lib None (\<lambda>body. None)) ''key'' []) \<noteq> Gateway_endpoint"
  by (simp add: CreateClient_def Gateway_endpoint_def)

text \<open>
  Claim C9, as the code has it. Client construction takes an API key and a gateway
  URL, both strings, and stores them as they are given; the production endpoint is
  the gateway only when the caller passes it. The HTTP transport is the standard
  default client.
\<close>

theorem CreateClient_fields:
  "APIKey (CreateClient lib apiKey gateway) = apiKey \<and>
   Gateway (CreateClient lib apiKey gateway) = gateway \<and>
   HTTPClient (CreateClient lib apiKey gateway) = Some (http_DefaultClient lib)"
  by (simp add: CreateClient_def)

end
